theory Spec2Isabelle
  imports Complex_Main
begin

section \<open>JavaScript numbers\<close>

text \<open>
  A JavaScript number is an IEEE-754 double. The model keeps the three special values
  apart from the finite ones and computes on finite values exactly, over the reals:
  rounding, overflow of a finite result to an infinity and the sign of zero are not
  modelled. The operators follow the IEEE rules on the special values, so \<open>0/0\<close>,
  \<open>Infinity - Infinity\<close> and \<open>0 * Infinity\<close> are \<open>NaN\<close>, as in the language.
\<close>

datatype jsnum = Fin real | PInf | NInf | NaN

fun js_neg :: "jsnum \<Rightarrow> jsnum" where
  "js_neg (Fin a) = Fin (- a)"
| "js_neg PInf = NInf"
| "js_neg NInf = PInf"
| "js_neg NaN = NaN"

fun js_add :: "jsnum \<Rightarrow> jsnum \<Rightarrow> jsnum" where
  "js_add (Fin a) (Fin b) = Fin (a + b)"
| "js_add NaN _ = NaN"
| "js_add _ NaN = NaN"
| "js_add PInf NInf = NaN"
| "js_add NInf PInf = NaN"
| "js_add PInf _ = PInf"
| "js_add NInf _ = NInf"
| "js_add _ PInf = PInf"
| "js_add _ NInf = NInf"

definition js_sub :: "jsnum \<Rightarrow> jsnum \<Rightarrow> jsnum" where
  "js_sub a b = js_add a (js_neg b)"

text \<open>The sign of a number that is not \<open>NaN\<close>: zero counts as positive zero.\<close>

fun js_nonneg :: "jsnum \<Rightarrow> bool" where
  "js_nonneg (Fin a) = (0 \<le> a)"
| "js_nonneg PInf = True"
| "js_nonneg NInf = False"
| "js_nonneg NaN = False"

fun js_mul :: "jsnum \<Rightarrow> jsnum \<Rightarrow> jsnum" where
  "js_mul (Fin a) (Fin b) = Fin (a * b)"
| "js_mul NaN _ = NaN"
| "js_mul _ NaN = NaN"
| "js_mul (Fin a) b = (if a = 0 then NaN else if (0 < a) = js_nonneg b then PInf else NInf)"
| "js_mul a (Fin b) = (if b = 0 then NaN else if (0 < b) = js_nonneg a then PInf else NInf)"
| "js_mul a b = (if js_nonneg a = js_nonneg b then PInf else NInf)"

fun js_div :: "jsnum \<Rightarrow> jsnum \<Rightarrow> jsnum" where
  "js_div (Fin a) (Fin b) =
     (if b = 0 then (if a = 0 then NaN else if 0 < a then PInf else NInf)
      else Fin (a / b))"
| "js_div NaN _ = NaN"
| "js_div _ NaN = NaN"
| "js_div (Fin a) _ = Fin 0"
| "js_div a (Fin b) = (if js_nonneg a = (0 \<le> b) then PInf else NInf)"
| "js_div _ _ = NaN"

text \<open>\<open>a > b\<close> and \<open>a < b\<close>: false as soon as one side is \<open>NaN\<close>.\<close>

fun js_gt :: "jsnum \<Rightarrow> jsnum \<Rightarrow> bool" where
  "js_gt NaN _ = False"
| "js_gt _ NaN = False"
| "js_gt (Fin a) (Fin b) = (b < a)"
| "js_gt PInf b = (b \<noteq> PInf)"
| "js_gt NInf _ = False"
| "js_gt (Fin a) b = (b = NInf)"


text \<open>Truthiness of a number: \<open>0\<close> and \<open>NaN\<close> are falsy.\<close>

definition num_truthy :: "jsnum \<Rightarrow> bool" where
  "num_truthy n = (n \<noteq> NaN \<and> n \<noteq> Fin 0)"

section \<open>Strings and numeric literals\<close>

text \<open>
  A string is a list of 8-bit characters, read as the code units below 256. The white
  space that \<open>trim\<close>, \<open>Number\<close> and \<open>parseFloat\<close> skip is then tab, line feed, vertical tab,
  form feed, carriage return, space and the no-break space.
\<close>

definition is_space :: "char \<Rightarrow> bool" where
  "is_space c = (c \<in> set [CHR 0x09, CHR 0x0A, CHR 0x0B, CHR 0x0C, CHR 0x0D, CHR 0x20, CHR 0xA0])"

definition trim_start :: "string \<Rightarrow> string" where
  "trim_start s = dropWhile is_space s"

definition trim :: "string \<Rightarrow> string" where
  "trim s = rev (dropWhile is_space (rev (dropWhile is_space s)))"

text \<open>The digit a character stands for in a base up to 16, if any.\<close>

fun index_of :: "char \<Rightarrow> string \<Rightarrow> nat option" where
  "index_of c [] = None"
| "index_of c (d # ds) = (if c = d then Some 0 else map_option Suc (index_of c ds))"

definition digit_of :: "nat \<Rightarrow> char \<Rightarrow> nat option" where
  "digit_of base c =
     (case index_of c ''0123456789abcdef'' of
        Some v \<Rightarrow> if v < base then Some v else None
      | None \<Rightarrow>
          (case index_of c ''ABCDEF'' of
             Some v \<Rightarrow> if v + 10 < base then Some (v + 10) else None
           | None \<Rightarrow> None))"

definition is_digit :: "char \<Rightarrow> bool" where
  "is_digit c = (digit_of 10 c \<noteq> None)"

definition digits_val :: "nat \<Rightarrow> string \<Rightarrow> nat" where
  "digits_val base ds = foldl (\<lambda>a c. a * base + (case digit_of base c of Some v \<Rightarrow> v | None \<Rightarrow> 0)) 0 ds"

definition scale10 :: "real \<Rightarrow> int \<Rightarrow> real" where
  "scale10 m e = (if 0 \<le> e then m * 10 ^ nat e else m / 10 ^ nat (- e))"

text \<open>
  The longest exponent part (\<open>e\<close> or \<open>E\<close>, an optional sign, at least one digit) at the
  head of a string: its value and what follows it. Without one, nothing is consumed.
\<close>

definition scan_exponent :: "string \<Rightarrow> int \<times> string" where
  "scan_exponent s =
     (case s of
        [] \<Rightarrow> (0, s)
      | c # r \<Rightarrow>
          if c = CHR ''e'' \<or> c = CHR ''E'' then
            (let neg = (r \<noteq> [] \<and> hd r = CHR ''-'');
                 r' = (if r \<noteq> [] \<and> (hd r = CHR ''+'' \<or> hd r = CHR ''-'') then tl r else r);
                 ds = takeWhile is_digit r'
             in if ds = [] then (0, s)
                else ((if neg then - int (digits_val 10 ds) else int (digits_val 10 ds)),
                      dropWhile is_digit r'))
          else (0, s))"

text \<open>
  The longest prefix that is a \<open>StrUnsignedDecimalLiteral\<close> of the language
  (\<open>Infinity\<close>, or digits with an optional fraction and exponent, or a fraction that
  starts with the point): its mathematical value and the rest of the string.
\<close>

definition scan_unsigned :: "string \<Rightarrow> (jsnum \<times> string) option" where
  "scan_unsigned s =
     (if take 8 s = ''Infinity'' then Some (PInf, drop 8 s)
      else
        let ip = takeWhile is_digit s;
            r1 = dropWhile is_digit s;
            dot = (r1 \<noteq> [] \<and> hd r1 = CHR ''.'');
            fp = (if dot then takeWhile is_digit (tl r1) else []);
            r2 = (if dot then dropWhile is_digit (tl r1) else r1)
        in if ip = [] \<and> fp = [] then None
           else
             let m = real (digits_val 10 ip) + real (digits_val 10 fp) / 10 ^ length fp;
                 er = scan_exponent r2
             in Some (Fin (scale10 m (fst er)), snd er))"

text \<open>The same with an optional sign in front (\<open>StrDecimalLiteral\<close>).\<close>

definition scan_decimal :: "string \<Rightarrow> (jsnum \<times> string) option" where
  "scan_decimal s =
     (case s of
        [] \<Rightarrow> None
      | c # r \<Rightarrow>
          if c = CHR ''+'' then scan_unsigned r
          else if c = CHR ''-'' then map_option (\<lambda>vr. (js_neg (fst vr), snd vr)) (scan_unsigned r)
          else scan_unsigned s)"

text \<open>\<open>parseFloat(s)\<close>: leading white space is skipped, the longest decimal literal at
  the head is read, and anything after it is ignored.\<close>

definition parse_float :: "string \<Rightarrow> jsnum" where
  "parse_float s = (case scan_decimal (trim_start s) of None \<Rightarrow> NaN | Some vr \<Rightarrow> fst vr)"

text \<open>A hexadecimal, octal or binary integer literal: \<open>0x\<close>, \<open>0o\<close> or \<open>0b\<close> (either case)
  and at least one digit of the base, with no sign.\<close>

definition non_decimal :: "string \<Rightarrow> nat option" where
  "non_decimal t =
     (case t of
        z # p # d # ds \<Rightarrow>
          (let base = (if p = CHR ''x'' \<or> p = CHR ''X'' then 16
                       else if p = CHR ''o'' \<or> p = CHR ''O'' then 8
                       else if p = CHR ''b'' \<or> p = CHR ''B'' then 2 else (0::nat))
           in if z = CHR ''0'' \<and> base \<noteq> 0 \<and> list_all (\<lambda>c. digit_of base c \<noteq> None) (d # ds)
              then Some (digits_val base (d # ds)) else None)
      | _ \<Rightarrow> None)"

text \<open>\<open>Number(s)\<close>, the conversion behind \<open>isNaN(s)\<close> and unary plus: the whole trimmed
  string must be a numeric literal; the empty string is \<open>0\<close>.\<close>

definition string_to_number :: "string \<Rightarrow> jsnum" where
  "string_to_number s =
     (let t = trim s in
      if t = [] then Fin 0
      else case non_decimal t of
             Some n \<Rightarrow> Fin (real n)
           | None \<Rightarrow>
               (case scan_decimal t of
                  Some vr \<Rightarrow> if snd vr = [] then fst vr else NaN
                | None \<Rightarrow> NaN))"

section \<open>Cells and records\<close>

text \<open>
  A cell is what a record holds under a field name: \<open>null\<close>, a number, a string or a
  \<open>Date\<close> object, and \<open>undefined\<close> is what reading an absent field gives. A \<open>Date\<close> is an
  object: it carries its reference (two \<open>Date\<close> objects of the same instant are different
  members of a \<open>Set\<close>) and its time value in milliseconds, \<open>NaN\<close> for an invalid date.
\<close>

datatype cell = Undefined | Null | Num jsnum | Str string | DateV nat jsnum

text \<open>A record lists its fields in the order of \<open>Object.keys\<close>.\<close>

type_synonym datum = "(string \<times> cell) list"

definition get_field :: "datum \<Rightarrow> string \<Rightarrow> cell" where
  "get_field d f = (case map_of d f of None \<Rightarrow> Undefined | Some v \<Rightarrow> v)"

fun truthy :: "cell \<Rightarrow> bool" where
  "truthy Undefined = False"
| "truthy Null = False"
| "truthy (Num n) = num_truthy n"
| "truthy (Str s) = (s \<noteq> [])"
| "truthy (DateV i t) = True"

text \<open>\<open>ToNumber\<close>, applied by unary plus, by arithmetic and by \<open>isNaN\<close>.\<close>

fun to_number :: "cell \<Rightarrow> jsnum" where
  "to_number Undefined = NaN"
| "to_number Null = Fin 0"
| "to_number (Num n) = n"
| "to_number (Str s) = string_to_number s"
| "to_number (DateV i t) = t"

definition isNaN :: "cell \<Rightarrow> bool" where
  "isNaN v = (to_number v = NaN)"

text \<open>\<open>parseFloat(v)\<close> reads the string form of \<open>v\<close>. The string form of a number reads
  back as the number; the string forms of \<open>null\<close>, \<open>undefined\<close> and of a \<open>Date\<close> (which
  starts with the name of a weekday, or is \<open>Invalid Date\<close>) start with a letter.\<close>

fun parseFloat :: "cell \<Rightarrow> jsnum" where
  "parseFloat (Num n) = n"
| "parseFloat (Str s) = parse_float s"
| "parseFloat _ = NaN"

text \<open>
  What the host supplies and the repository does not define: \<open>Date.parse\<close> (the time
  value of a date string, \<open>NaN\<close> when it is not understood), and the string forms of a
  number and of a \<open>Date\<close> with a given time value.
\<close>

record host =
  date_parse :: "string \<Rightarrow> jsnum"
  num_string :: "jsnum \<Rightarrow> string"
  date_string :: "jsnum \<Rightarrow> string"

text \<open>The string a template literal inserts for a cell.\<close>

fun to_string :: "host \<Rightarrow> cell \<Rightarrow> string" where
  "to_string h Undefined = ''undefined''"
| "to_string h Null = ''null''"
| "to_string h (Num n) = num_string h n"
| "to_string h (Str s) = s"
| "to_string h (DateV i t) = date_string h t"

section \<open>The d3 array helpers the charts call\<close>

text \<open>
  \<open>d3.sum(values, f)\<close> of d3 version 7 starts from \<open>0\<close> and, for each element, takes
  \<open>v = +f(x)\<close> and adds it only when \<open>v\<close> is truthy, so \<open>NaN\<close> entries are skipped.
  The argument here is the list of the \<open>+f(x)\<close>.
\<close>

definition d3_sum :: "jsnum list \<Rightarrow> jsnum" where
  "d3_sum vs = foldl (\<lambda>s v. if num_truthy v then js_add s v else s) (Fin 0) vs"

text \<open>
  \<open>d3.group(data, key)\<close> returns an \<open>InternMap\<close>: the groups in the order in which their
  keys were first seen, each with its records in input order. Two keys are the same group
  when they are the same value after an object key is replaced by its \<open>valueOf()\<close>, so
  a \<open>Date\<close> is keyed by its time value; the key kept for a group is the first one seen.
\<close>

fun intern_key :: "cell \<Rightarrow> cell" where
  "intern_key (DateV i t) = Num t"
| "intern_key v = v"

fun group_add :: "cell \<Rightarrow> 'a \<Rightarrow> (cell \<times> 'a list) list \<Rightarrow> (cell \<times> 'a list) list" where
  "group_add k d [] = [(k, [d])]"
| "group_add k d (g # gs) =
     (if intern_key (fst g) = intern_key k then (fst g, snd g @ [d]) # gs
      else g # group_add k d gs)"

definition d3_group :: "('a \<Rightarrow> cell) \<Rightarrow> 'a list \<Rightarrow> (cell \<times> 'a list) list" where
  "d3_group keyf data = foldl (\<lambda>gs d. group_add (keyf d) d gs) [] data"

section \<open>Array.prototype.sort\<close>

text \<open>
  \<open>xs.sort(cmp)\<close> is stable, and with a consistent comparator its result is determined:
  an element moves behind a later one only when \<open>cmp\<close> of the two is positive (a \<open>NaN\<close>
  from the comparator counts as \<open>0\<close>). The model is the stable insertion sort; where the
  comparator is inconsistent the language leaves the order to the implementation, and
  the model's order is one of the possible ones.
\<close>

fun js_insert :: "('a \<Rightarrow> 'a \<Rightarrow> jsnum) \<Rightarrow> 'a \<Rightarrow> 'a list \<Rightarrow> 'a list" where
  "js_insert cmp a [] = [a]"
| "js_insert cmp a (b # bs) =
     (if js_gt (cmp a b) (Fin 0) then b # js_insert cmp a bs else a # b # bs)"

definition js_sort :: "('a \<Rightarrow> 'a \<Rightarrow> jsnum) \<Rightarrow> 'a list \<Rightarrow> 'a list" where
  "js_sort cmp xs = foldr (js_insert cmp) xs []"

text \<open>Without a comparator, elements are ordered by their string forms, compared code
  unit by code unit.\<close>

fun str_less :: "string \<Rightarrow> string \<Rightarrow> bool" where
  "str_less [] [] = False"
| "str_less [] (b # bs) = True"
| "str_less (a # as) [] = False"
| "str_less (a # as) (b # bs) =
     ((of_char a :: nat) < of_char b \<or> (a = b \<and> str_less as bs))"

definition default_compare :: "host \<Rightarrow> cell \<Rightarrow> cell \<Rightarrow> jsnum" where
  "default_compare h a b =
     (if a = Undefined \<and> b = Undefined then Fin 0
      else if a = Undefined then Fin 1
      else if b = Undefined then Fin (- 1)
      else if str_less (to_string h a) (to_string h b) then Fin (- 1)
      else if str_less (to_string h b) (to_string h a) then Fin 1
      else Fin 0)"

definition sort_default :: "host \<Rightarrow> cell list \<Rightarrow> cell list" where
  "sort_default h xs = js_sort (default_compare h) xs"

section \<open>PieChart.processData and BarChart.processData\<close>

text \<open>\<open>v || 0\<close>.\<close>

definition or_zero :: "cell \<Rightarrow> cell" where
  "or_zero v = (if truthy v then v else Num (Fin 0))"

record pie_row =
  category :: cell
  value' :: jsnum
  count :: jsnum
  percentage :: jsnum
  originalData :: "datum list"

text \<open>The rows right after grouping, with \<open>percentage: 0\<close>.\<close>

definition pie_grouped :: "string \<Rightarrow> string \<Rightarrow> datum list \<Rightarrow> pie_row list" where
  "pie_grouped categoryField valueField data =
     map (\<lambda>g. \<lparr>category = fst g,
               value' = d3_sum (map (\<lambda>d. to_number (or_zero (get_field d valueField))) (snd g)),
               count = Fin (real (length (snd g))),
               percentage = Fin 0,
               originalData = snd g\<rparr>)
         (d3_group (\<lambda>d. get_field d categoryField) data)"

definition pie_total :: "string \<Rightarrow> string \<Rightarrow> datum list \<Rightarrow> jsnum" where
  "pie_total categoryField valueField data =
     d3_sum (map value' (pie_grouped categoryField valueField data))"

definition pie_percent :: "jsnum \<Rightarrow> jsnum \<Rightarrow> jsnum" where
  "pie_percent total' v = (if js_gt total' (Fin 0) then js_mul (js_div v total') (Fin 100) else Fin 0)"

text \<open>The rows after the loop that sets the percentages, and after the sort by value,
  descending.\<close>

definition pie_percented :: "string \<Rightarrow> string \<Rightarrow> datum list \<Rightarrow> pie_row list" where
  "pie_percented categoryField valueField data =
     (let total' = pie_total categoryField valueField data in
      map (\<lambda>d. d\<lparr>percentage := pie_percent total' (value' d)\<rparr>)
          (pie_grouped categoryField valueField data))"




text \<open>The bar chart's rows hold the key under the x field's name and the sum under the
  y field's name (two names taken to differ from each other and from \<open>count\<close> and
  \<open>originalData\<close>); they have no percentage.\<close>

record bar_row =
  bar_x :: cell
  bar_y :: jsnum
  bar_count :: jsnum
  bar_originalData :: "datum list"

definition bar_processData :: "string \<Rightarrow> string \<Rightarrow> datum list \<Rightarrow> bar_row list" where
  "bar_processData xField yField data =
     (if data = [] then []
      else
        js_sort (\<lambda>a b. js_sub (bar_y b) (bar_y a))
          (map (\<lambda>g. \<lparr>bar_x = fst g,
                    bar_y = d3_sum (map (\<lambda>d. to_number (or_zero (get_field d yField))) (snd g)),
                    bar_count = Fin (real (length (snd g))),
                    bar_originalData = snd g\<rparr>)
               (d3_group (\<lambda>d. get_field d xField) data)))"

section \<open>ScatterPlot.processData\<close>

definition scatter_processData :: "string \<Rightarrow> string \<Rightarrow> datum list \<Rightarrow> datum list" where
  "scatter_processData xField yField data =
     (if data = [] then []
      else filter (\<lambda>d.
             get_field d xField \<noteq> Null \<and> get_field d xField \<noteq> Undefined \<and> \<not> isNaN (get_field d xField) \<and>
             get_field d yField \<noteq> Null \<and> get_field d yField \<noteq> Undefined \<and> \<not> isNaN (get_field d yField))
           data)"

section \<open>LineChart.processData\<close>

text \<open>
  The time value of \<open>new Date(v)\<close>: a string is parsed by the host, a number is a count
  of milliseconds (cut to a whole number, invalid beyond 8.64e15 either way), \<open>null\<close>
  is the epoch, a \<open>Date\<close> is copied.
\<close>

fun new_Date :: "host \<Rightarrow> cell \<Rightarrow> jsnum" where
  "new_Date h Undefined = NaN"
| "new_Date h Null = Fin 0"
| "new_Date h (Num (Fin a)) =
     (if \<bar>a\<bar> \<le> 8640000000000000 then Fin (of_int (if 0 \<le> a then \<lfloor>a\<rfloor> else \<lceil>a\<rceil>)) else NaN)"
| "new_Date h (Num n) = NaN"
| "new_Date h (Str s) = date_parse h s"
| "new_Date h (DateV i t) = t"

definition by_date :: "host \<Rightarrow> string \<Rightarrow> datum \<Rightarrow> datum \<Rightarrow> jsnum" where
  "by_date h xField a b = js_sub (new_Date h (get_field a xField)) (new_Date h (get_field b xField))"

record line_group =
  key :: cell
  values' :: "datum list"

record line_state =
  filteredData :: "datum list"
  groupedData :: "line_group list"

definition line_processData :: "host \<Rightarrow> string \<Rightarrow> string \<Rightarrow> string option \<Rightarrow> datum list \<Rightarrow> line_state" where
  "line_processData h xField yField groupField data =
     (if data = [] then \<lparr>filteredData = [], groupedData = []\<rparr>
      else
        let filtered = js_sort (by_date h xField)
              (filter (\<lambda>d. truthy (get_field d xField) \<and>
                          get_field d yField \<noteq> Null \<and> get_field d yField \<noteq> Undefined) data)
        in (case groupField of
              Some g \<Rightarrow>
                if g \<noteq> [] then
                  \<lparr>filteredData = filtered,
                   groupedData = map (\<lambda>p. \<lparr>key = fst p, values' = js_sort (by_date h xField) (snd p)\<rparr>)
                                     (d3_group (\<lambda>d. get_field d g) filtered)\<rparr>
                else \<lparr>filteredData = filtered,
                      groupedData = [\<lparr>key = Str ''default'', values' = filtered\<rparr>]\<rparr>
            | None \<Rightarrow> \<lparr>filteredData = filtered,
                       groupedData = [\<lparr>key = Str ''default'', values' = filtered\<rparr>]\<rparr>))"

section \<open>Heatmap.processData\<close>

record matrix_entry =
  mx :: cell
  my :: cell
  mvalue :: jsnum
  mcount :: nat
  moriginalData :: "datum list"

text \<open>
  The three accumulators of the first loop: the object \<open>matrix\<close> (its keys in insertion
  order; every key holds a \<open>|\<close>, so none is an array index or a member of
  \<open>Object.prototype\<close>) and the two \<open>Set\<close>s, in insertion order. A \<open>Set\<close> tells its members
  apart by value, and objects by reference.
\<close>

record heat_acc =
  matrix :: "(string \<times> matrix_entry) list"
  xCats :: "cell list"
  yCats :: "cell list"

definition set_add :: "cell \<Rightarrow> cell list \<Rightarrow> cell list" where
  "set_add v vs = (if v \<in> set vs then vs else vs @ [v])"

definition matrix_key :: "host \<Rightarrow> cell \<Rightarrow> cell \<Rightarrow> string" where
  "matrix_key h xVal yVal = to_string h xVal @ ''|'' @ to_string h yVal"

text \<open>\<open>matrix[key].value += v; matrix[key].count += 1; matrix[key].originalData.push(d)\<close>,
  after the entry was created if it was missing.\<close>

fun matrix_update :: "string \<Rightarrow> matrix_entry \<Rightarrow> jsnum \<Rightarrow> datum \<Rightarrow>
    (string \<times> matrix_entry) list \<Rightarrow> (string \<times> matrix_entry) list" where
  "matrix_update k fresh v d [] =
     [(k, fresh\<lparr>mvalue := js_add (mvalue fresh) v, mcount := mcount fresh + 1,
               moriginalData := moriginalData fresh @ [d]\<rparr>)]"
| "matrix_update k fresh v d (e # es) =
     (if fst e = k
      then (k, (snd e)\<lparr>mvalue := js_add (mvalue (snd e)) v, mcount := mcount (snd e) + 1,
                       moriginalData := moriginalData (snd e) @ [d]\<rparr>) # es
      else e # matrix_update k fresh v d es)"

definition heat_step :: "host \<Rightarrow> string \<Rightarrow> string \<Rightarrow> string \<Rightarrow> heat_acc \<Rightarrow> datum \<Rightarrow> heat_acc" where
  "heat_step h xField yField valueField acc d =
     (let xVal = get_field d xField;
          yVal = get_field d yField;
          v = get_field d valueField
      in if xVal \<noteq> Null \<and> xVal \<noteq> Undefined \<and>
            yVal \<noteq> Null \<and> yVal \<noteq> Undefined \<and>
            v \<noteq> Null \<and> v \<noteq> Undefined \<and> \<not> isNaN v
         then \<lparr>matrix = matrix_update (matrix_key h xVal yVal)
                          \<lparr>mx = xVal, my = yVal, mvalue = Fin 0, mcount = 0, moriginalData = []\<rparr>
                          (parseFloat v) d (matrix acc),
               xCats = set_add xVal (xCats acc),
               yCats = set_add yVal (yCats acc)\<rparr>
         else acc)"

definition heat_accumulate :: "host \<Rightarrow> string \<Rightarrow> string \<Rightarrow> string \<Rightarrow> datum list \<Rightarrow> heat_acc" where
  "heat_accumulate h xField yField valueField data =
     foldl (heat_step h xField yField valueField) \<lparr>matrix = [], xCats = [], yCats = []\<rparr> data"

text \<open>One cell of the complete matrix.\<close>

definition matrix_cell :: "host \<Rightarrow> (string \<times> matrix_entry) list \<Rightarrow> cell \<Rightarrow> cell \<Rightarrow> matrix_entry" where
  "matrix_cell h m yVal xVal =
     (case map_of m (matrix_key h xVal yVal) of
        Some existing \<Rightarrow>
          \<lparr>mx = xVal, my = yVal,
           mvalue = js_div (mvalue existing) (Fin (real (mcount existing))),
           mcount = mcount existing, moriginalData = moriginalData existing\<rparr>
      | None \<Rightarrow> \<lparr>mx = xVal, my = yVal, mvalue = Fin 0, mcount = 0, moriginalData = []\<rparr>)"

text \<open>The chart's state that \<open>processData\<close> writes. On empty data it returns early and
  leaves the category lists of the previous call in place.\<close>

record heatmap =
  processedData :: "matrix_entry list"
  matrixData :: "matrix_entry list"
  xCategories :: "cell list"
  yCategories :: "cell list"

definition heat_processData :: "host \<Rightarrow> string \<Rightarrow> string \<Rightarrow> string \<Rightarrow> datum list \<Rightarrow> heatmap \<Rightarrow> heatmap" where
  "heat_processData h xField yField valueField data this =
     (if data = [] then this\<lparr>processedData := [], matrixData := []\<rparr>
      else
        let acc = heat_accumulate h xField yField valueField data;
            xs = sort_default h (xCats acc);
            ys = sort_default h (yCats acc)
        in \<lparr>processedData =
              map (\<lambda>e. (snd e)\<lparr>mvalue := js_div (mvalue (snd e)) (Fin (real (mcount (snd e))))\<rparr>)
                  (matrix acc),
            matrixData = concat (map (\<lambda>yVal. map (matrix_cell h (matrix acc) yVal) xs) ys),
            xCategories = xs,
            yCategories = ys\<rparr>)"

section \<open>DataLoader: type coercion\<close>

text \<open>The four date patterns: a digit, or the given character.\<close>

datatype pat = D | L char

fun match_pat :: "pat list \<Rightarrow> string \<Rightarrow> bool" where
  "match_pat [] [] = True"
| "match_pat (D # ps) (c # cs) = (is_digit c \<and> match_pat ps cs)"
| "match_pat (L a # ps) (c # cs) = (a = c \<and> match_pat ps cs)"
| "match_pat _ _ = False"

definition datePatterns :: "pat list list" where
  "datePatterns =
     [[D, D, D, D, L CHR ''-'', D, D, L CHR ''-'', D, D],
      [D, D, L CHR ''/'', D, D, L CHR ''/'', D, D, D, D],
      [D, D, L CHR ''-'', D, D, L CHR ''-'', D, D, D, D],
      [D, D, D, D, L CHR ''/'', D, D, L CHR ''/'', D, D]]"

fun isDateString :: "host \<Rightarrow> cell \<Rightarrow> bool" where
  "isDateString h (Str s) =
     (s \<noteq> [] \<and> list_ex (\<lambda>p. match_pat p s) datePatterns \<and> date_parse h s \<noteq> NaN)"
| "isDateString h _ = False"

text \<open>
  The conversion of one cell in \<open>loadUserCSV\<close>: \<open>None\<close> is a missing value (\<open>null\<close>);
  \<open>ref\<close> is the reference of the \<open>Date\<close> object that \<open>new Date(value)\<close> would create.
\<close>

definition coerce :: "host \<Rightarrow> nat \<Rightarrow> string option \<Rightarrow> cell" where
  "coerce h ref raw =
     (case raw of
        None \<Rightarrow> Null
      | Some v \<Rightarrow>
          if v = [] \<or> trim v = [] then Null
          else if \<not> isNaN (Str v) \<and> parse_float v \<noteq> NaN then Num (parse_float v)
          else if isDateString h (Str v) then DateV ref (date_parse h v)
          else Str (trim v))"

section \<open>DataLoader: field classification\<close>

datatype kind = Numeric | Date | Categorical

text \<open>\<open>data.map(d => d[col]).filter(v => v !== null && v !== undefined)\<close> and its first
  element, \<open>undefined\<close> when there is none.\<close>

definition column_values :: "datum list \<Rightarrow> string \<Rightarrow> cell list" where
  "column_values data col =
     filter (\<lambda>v. v \<noteq> Null \<and> v \<noteq> Undefined) (map (\<lambda>d. get_field d col) data)"

definition sampleValue :: "datum list \<Rightarrow> string \<Rightarrow> cell" where
  "sampleValue data col = (case column_values data col of [] \<Rightarrow> Undefined | v # _ \<Rightarrow> v)"

fun is_number :: "cell \<Rightarrow> bool" where
  "is_number (Num n) = True"
| "is_number _ = False"

fun is_Date :: "cell \<Rightarrow> bool" where
  "is_Date (DateV i t) = True"
| "is_Date _ = False"

record column_info =
  name :: string
  type' :: kind
  uniqueCount :: nat
  sampleValues :: "cell list"

text \<open>\<open>getColumnInfo\<close>, without the statistics it adds to a numeric column.\<close>

definition getColumnInfo :: "datum list \<Rightarrow> (string \<times> column_info) list" where
  "getColumnInfo data =
     (case data of
        [] \<Rightarrow> []
      | d0 # _ \<Rightarrow>
          map (\<lambda>col. (col,
                 \<lparr>name = col,
                  type' = (if is_number (sampleValue data col) then Numeric
                           else if is_Date (sampleValue data col) then Date else Categorical),
                  uniqueCount = length (remdups (column_values data col)),
                  sampleValues = take 5 (column_values data col)\<rparr>))
              (map fst d0))"

record suggestions =
  s_numeric :: "string list"
  s_categorical :: "string list"
  s_date :: "string list"
  s_all :: "string list"

definition suggested_kind :: "host \<Rightarrow> cell \<Rightarrow> kind" where
  "suggested_kind h v =
     (if is_number v then Numeric
      else if is_Date v \<or> isDateString h v then Date
      else Categorical)"

text \<open>\<open>getFieldSuggestions\<close>: \<open>None\<close> stands for the object without any property that
  it returns on an empty dataset.\<close>

definition getFieldSuggestions :: "host \<Rightarrow> datum list \<Rightarrow> suggestions option" where
  "getFieldSuggestions h data =
     (case data of
        [] \<Rightarrow> None
      | d0 # _ \<Rightarrow>
          (let columns = map fst d0 in
           Some \<lparr>s_numeric = filter (\<lambda>col. suggested_kind h (sampleValue data col) = Numeric) columns,
                 s_categorical = filter (\<lambda>col. suggested_kind h (sampleValue data col) = Categorical) columns,
                 s_date = filter (\<lambda>col. suggested_kind h (sampleValue data col) = Date) columns,
                 s_all = columns\<rparr>))"

section \<open>DataLoader: field mapping\<close>

text \<open>A mapping from roles to field names; \<open>None\<close> is a role that is absent, \<open>null\<close> or
  \<open>undefined\<close>.\<close>

record field_mapping =
  fm_x :: "string option"
  fm_y :: "string option"
  fm_label :: "string option"
  fm_value :: "string option"
  fm_size :: "string option"
  fm_color :: "string option"

definition no_mapping :: field_mapping where
  "no_mapping = \<lparr>fm_x = None, fm_y = None, fm_label = None, fm_value = None,
                  fm_size = None, fm_color = None\<rparr>"

text \<open>Reading a property of \<open>undefined\<close> throws.\<close>

datatype js_error = TypeError

text \<open>\<open>xs[i]\<close> and \<open>a || b\<close> on field names: the empty string is falsy.\<close>

definition nth_opt :: "'a list \<Rightarrow> nat \<Rightarrow> 'a option" where
  "nth_opt xs i = (if i < length xs then Some (xs ! i) else None)"

definition js_or :: "string option \<Rightarrow> string option \<Rightarrow> string option" where
  "js_or a b = (case a of None \<Rightarrow> b | Some s \<Rightarrow> if s \<noteq> [] then Some s else b)"

definition getSmartFieldMapping :: "host \<Rightarrow> string \<Rightarrow> datum list \<Rightarrow> js_error + field_mapping" where
  "getSmartFieldMapping h chartType data =
     (case getFieldSuggestions h data of
        None \<Rightarrow> Inl TypeError
      | Some s \<Rightarrow>
          Inr (if chartType = ''bar'' then
                 no_mapping\<lparr>fm_x := js_or (nth_opt (s_categorical s) 0) (nth_opt (s_all s) 0),
                            fm_y := js_or (nth_opt (s_numeric s) 0) (nth_opt (s_all s) 1)\<rparr>
               else if chartType = ''line'' then
                 no_mapping\<lparr>fm_x := js_or (nth_opt (s_date s) 0)
                                      (js_or (nth_opt (s_numeric s) 0) (nth_opt (s_all s) 0)),
                            fm_y := js_or (nth_opt (s_numeric s) 0) (nth_opt (s_all s) 1)\<rparr>
               else if chartType = ''scatter'' then
                 no_mapping\<lparr>fm_x := js_or (nth_opt (s_numeric s) 0) (nth_opt (s_all s) 0),
                            fm_y := js_or (nth_opt (s_numeric s) 1) (nth_opt (s_all s) 1),
                            fm_size := js_or (nth_opt (s_numeric s) 2) None,
                            fm_color := js_or (nth_opt (s_categorical s) 0) None\<rparr>
               else if chartType = ''pie'' then
                 no_mapping\<lparr>fm_label := js_or (nth_opt (s_categorical s) 0) (nth_opt (s_all s) 0),
                            fm_value := js_or (nth_opt (s_numeric s) 0) (nth_opt (s_all s) 1)\<rparr>
               else if chartType = ''heatmap'' then
                 no_mapping\<lparr>fm_x := js_or (nth_opt (s_categorical s) 0) (nth_opt (s_all s) 0),
                            fm_y := js_or (nth_opt (s_categorical s) 1) (nth_opt (s_all s) 1),
                            fm_value := js_or (nth_opt (s_numeric s) 0) (nth_opt (s_all s) 2)\<rparr>
               else
                 no_mapping\<lparr>fm_x := nth_opt (s_all s) 0, fm_y := nth_opt (s_all s) 1\<rparr>))"

fun kind_name :: "kind \<Rightarrow> string" where
  "kind_name Numeric = ''numeric''"
| "kind_name Date = ''date''"
| "kind_name Categorical = ''categorical''"

text \<open>\<open>requiredTypes.join(' or ')\<close>.\<close>

fun join_or :: "string list \<Rightarrow> string" where
  "join_or [] = []"
| "join_or [a] = a"
| "join_or (a # b # cs) = a @ '' or '' @ join_or (b # cs)"

definition required_message :: "string \<Rightarrow> string \<Rightarrow> string" where
  "required_message fieldName chartType = fieldName @ '' field is required for '' @ chartType @ '' chart''"

definition missing_message :: "string \<Rightarrow> string" where
  "missing_message f = ''Field '' @ [CHR 0x27] @ f @ [CHR 0x27] @ '' does not exist in dataset''"

definition mismatch_message :: "string \<Rightarrow> kind \<Rightarrow> kind list \<Rightarrow> string \<Rightarrow> string" where
  "mismatch_message f fieldType requiredTypes fieldName =
     ''Field '' @ [CHR 0x27] @ f @ [CHR 0x27] @ '' is '' @ kind_name fieldType @ '', but '' @
     join_or (map kind_name requiredTypes) @ '' is recommended for '' @ fieldName"

text \<open>
  The closure \<open>checkField\<close>: the state is the pair of the lists \<open>errors\<close> and \<open>warnings\<close>.
  \<open>suggestions.all.includes\<close> throws when the suggestions have no property \<open>all\<close>.
\<close>

definition checkField :: "suggestions option \<Rightarrow> string \<Rightarrow> string list \<times> string list \<Rightarrow>
    string option \<Rightarrow> kind list \<Rightarrow> string \<Rightarrow> js_error + string list \<times> string list" where
  "checkField sugg chartType st field requiredTypes fieldName =
     (case js_or field None of
        None \<Rightarrow> Inr (fst st @ [required_message fieldName chartType], snd st)
      | Some f \<Rightarrow>
          (case sugg of
             None \<Rightarrow> Inl TypeError
           | Some s \<Rightarrow>
               if f \<notin> set (s_all s) then Inr (fst st @ [missing_message f], snd st)
               else
                 let fieldType = (if f \<in> set (s_numeric s) then Numeric
                                  else if f \<in> set (s_date s) then Date else Categorical)
                 in if fieldType \<notin> set requiredTypes
                    then Inr (fst st, snd st @ [mismatch_message f fieldType requiredTypes fieldName])
                    else Inr st))"

text \<open>The calls of \<open>checkField\<close> that the \<open>switch\<close> makes for a chart type, in order.\<close>

definition chart_checks :: "string \<Rightarrow> field_mapping \<Rightarrow> (string option \<times> kind list \<times> string) list" where
  "chart_checks chartType mapping =
     (if chartType = ''bar'' then
        [(fm_x mapping, [Categorical], ''X-axis''), (fm_y mapping, [Numeric], ''Y-axis'')]
      else if chartType = ''line'' then
        [(fm_x mapping, [Date, Numeric], ''X-axis''), (fm_y mapping, [Numeric], ''Y-axis'')]
      else if chartType = ''scatter'' then
        [(fm_x mapping, [Numeric], ''X-axis''), (fm_y mapping, [Numeric], ''Y-axis'')]
      else if chartType = ''pie'' then
        [(fm_label mapping, [Categorical], ''Label''), (fm_value mapping, [Numeric], ''Value'')]
      else if chartType = ''heatmap'' then
        [(fm_x mapping, [Categorical], ''X-axis''), (fm_y mapping, [Categorical], ''Y-axis''),
         (fm_value mapping, [Numeric], ''Value'')]
      else [])"

fun run_checks :: "suggestions option \<Rightarrow> string \<Rightarrow> string list \<times> string list \<Rightarrow>
    (string option \<times> kind list \<times> string) list \<Rightarrow> js_error + string list \<times> string list" where
  "run_checks sugg chartType st [] = Inr st"
| "run_checks sugg chartType st (c # cs) =
     (case checkField sugg chartType st (fst c) (fst (snd c)) (snd (snd c)) of
        Inl e \<Rightarrow> Inl e
      | Inr st' \<Rightarrow> run_checks sugg chartType st' cs)"

record validation =
  isValid :: bool
  errors :: "string list"
  warnings :: "string list"
  suggested :: field_mapping

definition validateFieldMapping :: "host \<Rightarrow> string \<Rightarrow> field_mapping \<Rightarrow> datum list \<Rightarrow> js_error + validation" where
  "validateFieldMapping h chartType mapping data =
     (case run_checks (getFieldSuggestions h data) chartType ([], []) (chart_checks chartType mapping) of
        Inl e \<Rightarrow> Inl e
      | Inr st \<Rightarrow>
          (case getSmartFieldMapping h chartType data of
             Inl e \<Rightarrow> Inl e
           | Inr sm \<Rightarrow> Inr \<lparr>isValid = (fst st = []), errors = fst st, warnings = snd st,
                             suggested = sm\<rparr>))"

section \<open>ScatterPlot.calculateLinearRegression\<close>










section \<open>Notions of the specification\<close>

text \<open>A cell that is a number in the sense of the specification's cell type: a value of
  type number other than \<open>NaN\<close>.\<close>

fun numeric_cell :: "cell \<Rightarrow> bool" where
  "numeric_cell (Num n) = (n \<noteq> NaN)"
| "numeric_cell _ = False"

text \<open>The raw-pair filter as the specification words it: the records whose x and y are
  both non-null and numeric.\<close>

definition scatter_claimed :: "string \<Rightarrow> string \<Rightarrow> datum list \<Rightarrow> datum list" where
  "scatter_claimed xField yField data =
     filter (\<lambda>d. numeric_cell (get_field d xField) \<and> numeric_cell (get_field d yField)) data"

text \<open>A cell that converts to a number: a number other than \<open>NaN\<close>, a string that reads
  as a number in full (the empty and the blank string read as \<open>0\<close>), or a valid \<open>Date\<close>.\<close>

fun coercible :: "cell \<Rightarrow> bool" where
  "coercible (Num n) = (n \<noteq> NaN)"
| "coercible (Str s) = (string_to_number s \<noteq> NaN)"
| "coercible (DateV i t) = (t \<noteq> NaN)"
| "coercible _ = False"

definition number_or_missing :: "cell \<Rightarrow> bool" where
  "number_or_missing v = (v = Null \<or> v = Undefined \<or> is_number v)"

text \<open>A record that the matrix-fill aggregation is to leave out: its x or y is \<open>null\<close> or
  \<open>undefined\<close>, or its value entry is \<open>null\<close>, \<open>undefined\<close> or \<open>NaN\<close>.\<close>

definition heat_excluded :: "string \<Rightarrow> string \<Rightarrow> string \<Rightarrow> datum \<Rightarrow> bool" where
  "heat_excluded xField yField valueField d =
     (get_field d xField = Null \<or> get_field d xField = Undefined \<or>
      get_field d yField = Null \<or> get_field d yField = Undefined \<or>
      get_field d valueField = Null \<or> get_field d valueField = Undefined \<or>
      get_field d valueField = Num NaN)"




text \<open>What one call of \<open>checkField\<close> adds to the errors and to the warnings, read off the
  specification: a missing role is an error, a field that the dataset does not have is an
  error, and a field of another kind than recommended is a warning.\<close>

definition check_errors :: "suggestions \<Rightarrow> string \<Rightarrow> string option \<times> kind list \<times> string \<Rightarrow> string list" where
  "check_errors s chartType c =
     (case js_or (fst c) None of
        None \<Rightarrow> [required_message (snd (snd c)) chartType]
      | Some f \<Rightarrow> if f \<in> set (s_all s) then [] else [missing_message f])"

definition check_warnings :: "suggestions \<Rightarrow> string option \<times> kind list \<times> string \<Rightarrow> string list" where
  "check_warnings s c =
     (case js_or (fst c) None of
        None \<Rightarrow> []
      | Some f \<Rightarrow>
          if f \<in> set (s_all s) then
            (let fieldType = (if f \<in> set (s_numeric s) then Numeric
                              else if f \<in> set (s_date s) then Date else Categorical)
             in if fieldType \<in> set (fst (snd c)) then []
                else [mismatch_message f fieldType (fst (snd c)) (snd (snd c))])
          else [])"


section \<open>Properties\<close>



subsection \<open>The sort is a stable rearrangement\<close>

lemma js_sort_Nil: "js_sort c [] = []"
  by (simp add: js_sort_def)

lemma js_sort_Cons: "js_sort c (x # xs) = js_insert c x (js_sort c xs)"
  by (simp add: js_sort_def)

lemma length_js_insert: "length (js_insert c a xs) = Suc (length xs)"
  by (induction xs) auto

lemma length_js_sort: "length (js_sort c xs) = length xs"
  by (induction xs) (auto simp: js_sort_Nil js_sort_Cons length_js_insert)












subsection \<open>Groups hold records of the data\<close>





subsection \<open>Sums without infinities are finite\<close>





subsection \<open>Linear regression\<close>












subsection \<open>The raw-pair filter of the scatter plot\<close>

lemma scatter_filter:
  "scatter_processData xField yField data =
     filter (\<lambda>d. coercible (get_field d xField) \<and> coercible (get_field d yField)) data"
proof -
  have c: "coercible v = (v \<noteq> Null \<and> v \<noteq> Undefined \<and> \<not> isNaN v)" for v
    by (cases v) (simp_all add: isNaN_def)
  show ?thesis by (simp add: scatter_processData_def c)
qed

lemma coercible_number: "number_or_missing v \<Longrightarrow> coercible v = numeric_cell v"
  by (cases v) (simp_all add: number_or_missing_def)

text \<open>
  Claim C9, as stated, fails: the filter tests \<open>!isNaN(v)\<close>, which converts \<open>v\<close> first, so
  a record whose x is a valid \<open>Date\<close> (or a string that reads as a number, the empty string
  included) is kept although that x is not a number.
\<close>

theorem scatter_date_counterexample:
  "scatter_processData ''x'' ''y'' [[(''x'', DateV 0 (Fin 0)), (''y'', Num (Fin 1))]] =
     [[(''x'', DateV 0 (Fin 0)), (''y'', Num (Fin 1))]] \<and>
   scatter_claimed ''x'' ''y'' [[(''x'', DateV 0 (Fin 0)), (''y'', Num (Fin 1))]] = []"
  by (simp add: scatter_processData_def scatter_claimed_def get_field_def isNaN_def)

text \<open>
  Claim C9, amended. The raw-pair filter returns, in input order and unchanged, exactly
  the records whose x and y values both convert to a number other than \<open>NaN\<close>: numbers
  other than \<open>NaN\<close>, strings that read as a number in full, and valid \<open>Date\<close>s; \<open>null\<close> and
  \<open>undefined\<close> never pass. On data whose x and y values are numbers, \<open>null\<close> or absent,
  these are exactly the records whose x and y are both non-null and numeric.
\<close>

theorem scatter_keeps_coercible:
  "scatter_processData xField yField data =
     filter (\<lambda>d. coercible (get_field d xField) \<and> coercible (get_field d yField)) data \<and>
   (list_all (\<lambda>d. number_or_missing (get_field d xField) \<and> number_or_missing (get_field d yField)) data
      \<longrightarrow> scatter_processData xField yField data = scatter_claimed xField yField data)"
proof -
  have "filter (\<lambda>d. coercible (get_field d xField) \<and> coercible (get_field d yField)) data =
        scatter_claimed xField yField data"
    if "list_all (\<lambda>d. number_or_missing (get_field d xField) \<and> number_or_missing (get_field d yField)) data"
    unfolding scatter_claimed_def using that
    by (intro filter_cong refl) (auto simp: list_all_iff coercible_number)
  then show ?thesis by (simp add: scatter_filter)
qed

theorem scatter_keeps_coercible_witness:
  "list_all (\<lambda>d. number_or_missing (get_field d ''x'') \<and> number_or_missing (get_field d ''y''))
     [[(''x'', Num (Fin 1)), (''y'', Num (Fin 2))], [(''x'', Null), (''y'', Num (Fin 3))],
      [(''x'', Num NaN), (''y'', Num (Fin 4))], [(''x'', Num (Fin 5))]] \<and>
   scatter_processData ''x'' ''y''
     [[(''x'', Num (Fin 1)), (''y'', Num (Fin 2))], [(''x'', Null), (''y'', Num (Fin 3))],
      [(''x'', Num NaN), (''y'', Num (Fin 4))], [(''x'', Num (Fin 5))]] =
     [[(''x'', Num (Fin 1)), (''y'', Num (Fin 2))]]"
proof -
  let ?D = "[[(''x'', Num (Fin 1)), (''y'', Num (Fin 2))], [(''x'', Null), (''y'', Num (Fin 3))],
      [(''x'', Num NaN), (''y'', Num (Fin 4))], [(''x'', Num (Fin 5))]]"
  have a: "list_all (\<lambda>d. number_or_missing (get_field d ''x'') \<and> number_or_missing (get_field d ''y'')) ?D"
    by (simp add: number_or_missing_def get_field_def)
  have b: "scatter_claimed ''x'' ''y'' ?D = [[(''x'', Num (Fin 1)), (''y'', Num (Fin 2))]]"
    by (simp add: scatter_claimed_def get_field_def)
  from conjunct2 [OF scatter_keeps_coercible [of "''x''" "''y''" ?D]] a
  have c: "scatter_processData ''x'' ''y'' ?D = scatter_claimed ''x'' ''y'' ?D"
    by (rule mp)
  from a b c show ?thesis by (simp only: simp_thms)
qed

subsection \<open>The matrix fill of the heatmap\<close>

lemma heat_step_excluded:
  "heat_excluded xField yField valueField d \<Longrightarrow> heat_step h xField yField valueField acc d = acc"
  by (auto simp: heat_excluded_def heat_step_def Let_def isNaN_def)

lemma foldl_skip:
  "(\<And>a d. \<not> P d \<Longrightarrow> f a d = a) \<Longrightarrow> foldl f a (filter P xs) = foldl f a xs"
  by (induction xs arbitrary: a) auto

lemma heat_accumulate_filter:
  "heat_accumulate h xField yField valueField
      (filter (\<lambda>d. \<not> heat_excluded xField yField valueField d) data) =
   heat_accumulate h xField yField valueField data"
  unfolding heat_accumulate_def
  by (rule foldl_skip) (simp add: heat_step_excluded)

lemma sort_default_Nil: "sort_default h [] = []"
  by (simp add: sort_default_def js_sort_def)

lemma heat_accumulate_Nil:
  "heat_accumulate h xField yField valueField [] = \<lparr>matrix = [], xCats = [], yCats = []\<rparr>"
  by (simp add: heat_accumulate_def)

lemma heat_processData_filter:
  "matrixData (heat_processData h xField yField valueField
      (filter (\<lambda>d. \<not> heat_excluded xField yField valueField d) data) this) =
   matrixData (heat_processData h xField yField valueField data this) \<and>
   processedData (heat_processData h xField yField valueField
      (filter (\<lambda>d. \<not> heat_excluded xField yField valueField d) data) this) =
   processedData (heat_processData h xField yField valueField data this)"
proof (cases "filter (\<lambda>d. \<not> heat_excluded xField yField valueField d) data = []")
  case True
  then have "heat_accumulate h xField yField valueField data = \<lparr>matrix = [], xCats = [], yCats = []\<rparr>"
    using heat_accumulate_filter [of h xField yField valueField data]
    by (simp add: heat_accumulate_Nil)
  with True show ?thesis
    by (simp add: heat_processData_def Let_def sort_default_Nil)
next
  case False
  then have "data \<noteq> []" by auto
  with False show ?thesis
    by (simp add: heat_processData_def Let_def heat_accumulate_filter)
qed

text \<open>The complete matrix has one cell for each pair of an x category and a y category.\<close>

lemma heat_matrix_size:
  "data \<noteq> [] \<Longrightarrow>
   length (matrixData (heat_processData h xField yField valueField data this)) =
   length (xCats (heat_accumulate h xField yField valueField data)) *
   length (yCats (heat_accumulate h xField yField valueField data))"
  by (simp add: heat_processData_def Let_def length_concat comp_def sum_list_triv
      sort_default_def length_js_sort)

text \<open>
  Claim C10. A record whose x or y value is \<open>null\<close> or \<open>undefined\<close>, or whose value entry is
  \<open>null\<close>, \<open>undefined\<close> or \<open>NaN\<close>, is left out entirely: removing all such records from the
  data changes neither the accumulated sums, counts and source records of any pair nor
  the sets of observed x and y categories, and so neither the complete matrix nor the
  list of averaged pairs.
\<close>

theorem heat_ignores_excluded_records:
  "heat_accumulate h xField yField valueField
      (filter (\<lambda>d. \<not> heat_excluded xField yField valueField d) data) =
   heat_accumulate h xField yField valueField data \<and>
   matrixData (heat_processData h xField yField valueField
      (filter (\<lambda>d. \<not> heat_excluded xField yField valueField d) data) this) =
   matrixData (heat_processData h xField yField valueField data this) \<and>
   processedData (heat_processData h xField yField valueField
      (filter (\<lambda>d. \<not> heat_excluded xField yField valueField d) data) this) =
   processedData (heat_processData h xField yField valueField data this)"
  using heat_accumulate_filter [of h xField yField valueField data]
    heat_processData_filter [of h xField yField valueField data this]
  by simp

theorem heat_ignores_excluded_records_witness:
  "matrixData (heat_processData
      \<lparr>date_parse = (\<lambda>s. NaN), num_string = (\<lambda>n. []), date_string = (\<lambda>t. [])\<rparr> ''x'' ''y'' ''v''
      [[(''x'', Null), (''y'', Str ''b''), (''v'', Num (Fin 5))],
       [(''x'', Str ''a''), (''y'', Str ''b''), (''v'', Num (Fin 7))],
       [(''x'', Str ''c''), (''y'', Str ''d''), (''v'', Num NaN)],
       [(''x'', Str ''e''), (''v'', Num (Fin 1))]]
      \<lparr>processedData = [], matrixData = [], xCategories = [], yCategories = []\<rparr>) =
   [\<lparr>mx = Str ''a'', my = Str ''b'', mvalue = Fin 7, mcount = 1,
      moriginalData = [[(''x'', Str ''a''), (''y'', Str ''b''), (''v'', Num (Fin 7))]]\<rparr>]"
proof -
  let ?h = "\<lparr>date_parse = (\<lambda>s. NaN), num_string = (\<lambda>n. []), date_string = (\<lambda>t. [])\<rparr>"
  let ?D = "[[(''x'', Null), (''y'', Str ''b''), (''v'', Num (Fin 5))],
       [(''x'', Str ''a''), (''y'', Str ''b''), (''v'', Num (Fin 7))],
       [(''x'', Str ''c''), (''y'', Str ''d''), (''v'', Num NaN)],
       [(''x'', Str ''e''), (''v'', Num (Fin 1))]]"
  let ?st = "\<lparr>processedData = [], matrixData = [], xCategories = [], yCategories = []\<rparr>"
  have f: "filter (\<lambda>d. \<not> heat_excluded ''x'' ''y'' ''v'' d) ?D =
      [[(''x'', Str ''a''), (''y'', Str ''b''), (''v'', Num (Fin 7))]]"
    by (simp add: heat_excluded_def get_field_def)
  have e: "matrixData (heat_processData ?h ''x'' ''y'' ''v''
      [[(''x'', Str ''a''), (''y'', Str ''b''), (''v'', Num (Fin 7))]] ?st) =
   [\<lparr>mx = Str ''a'', my = Str ''b'', mvalue = Fin 7, mcount = 1,
      moriginalData = [[(''x'', Str ''a''), (''y'', Str ''b''), (''v'', Num (Fin 7))]]\<rparr>]"
    by (simp add: heat_processData_def heat_accumulate_def heat_step_def get_field_def isNaN_def
      matrix_key_def set_add_def sort_default_def js_sort_def default_compare_def matrix_cell_def
      Let_def)
  from heat_ignores_excluded_records [of ?h "''x''" "''y''" "''v''" ?D ?st]
  have "matrixData (heat_processData ?h ''x'' ''y'' ''v'' (filter (\<lambda>d. \<not> heat_excluded ''x'' ''y'' ''v'' d) ?D) ?st) =
        matrixData (heat_processData ?h ''x'' ''y'' ''v'' ?D ?st)"
    by (rule conjunct1 [OF conjunct2])
  then show ?thesis unfolding f e by (rule sym)
qed

text \<open>
  Claim C2 fails on the code: the key of a pair is the two string forms joined by \<open>|\<close>,
  so the pairs \<open>(a|b, c)\<close> and \<open>(a, b|c)\<close> share one entry. Here each pair is observed once,
  with values 1 and 3; both cells carry the average 2 of the two and the count 2.
\<close>

theorem heat_key_collision:
  "matrixData (heat_processData h ''x'' ''y'' ''v''
      [[(''x'', Str ''a|b''), (''y'', Str ''c''), (''v'', Num (Fin 1))],
       [(''x'', Str ''a''), (''y'', Str ''b|c''), (''v'', Num (Fin 3))]] this) =
   [\<lparr>mx = Str ''a'', my = Str ''b|c'', mvalue = Fin 2, mcount = 2,
      moriginalData = [[(''x'', Str ''a|b''), (''y'', Str ''c''), (''v'', Num (Fin 1))],
                       [(''x'', Str ''a''), (''y'', Str ''b|c''), (''v'', Num (Fin 3))]]\<rparr>,
    \<lparr>mx = Str ''a|b'', my = Str ''b|c'', mvalue = Fin 0, mcount = 0, moriginalData = []\<rparr>,
    \<lparr>mx = Str ''a'', my = Str ''c'', mvalue = Fin 0, mcount = 0, moriginalData = []\<rparr>,
    \<lparr>mx = Str ''a|b'', my = Str ''c'', mvalue = Fin 2, mcount = 2,
      moriginalData = [[(''x'', Str ''a|b''), (''y'', Str ''c''), (''v'', Num (Fin 1))],
                       [(''x'', Str ''a''), (''y'', Str ''b|c''), (''v'', Num (Fin 3))]]\<rparr>]"
  by (simp add: heat_processData_def heat_accumulate_def heat_step_def get_field_def isNaN_def
      matrix_key_def set_add_def sort_default_def js_sort_def default_compare_def matrix_cell_def
      Let_def)

subsection \<open>Type coercion\<close>

lemmas str_eval = string_to_number_def parse_float_def trim_def trim_start_def is_space_def
  non_decimal_def scan_decimal_def scan_unsigned_def scan_exponent_def scale10_def
  is_digit_def digit_of_def digits_val_def

text \<open>The examples of the specification.\<close>

lemma coerce_examples:
  "coerce h r (Some '''') = Null"
  "coerce h r (Some ''   '') = Null"
  "coerce h r None = Null"
  "coerce h r (Some ''42'') = Num (Fin 42)"
  "coerce h r (Some ''hello'') = Str ''hello''"
  "coerce h r (Some ''2023'') = Num (Fin 2023)"
  "date_parse h ''2023-01-15'' = Fin t \<Longrightarrow> coerce h r (Some ''2023-01-15'') = DateV r (Fin t)"
  by (simp_all add: coerce_def isNaN_def str_eval datePatterns_def)

text \<open>
  Claim C4 fails on the code: the test is \<open>!isNaN(value)\<close>, which reads the whole string
  as \<open>Number\<close> does, but the value stored is \<open>parseFloat(value)\<close>, which reads the longest
  decimal prefix. The string \<open>0x1A\<close> is the number 26 in full and is stored as 0.
\<close>

theorem coerce_hex:
  "string_to_number ''0x1A'' = Fin 26 \<and> coerce h r (Some ''0x1A'') = Num (Fin 0)"
  by (simp add: coerce_def isNaN_def str_eval)

subsection \<open>The line chart\<close>

text \<open>
  Claim C5 fails on the code: the filter keeps a record only when its x value is truthy,
  so a record whose x is the number 0 is dropped although it is neither \<open>null\<close> nor
  \<open>undefined\<close>.
\<close>

theorem line_drops_zero_x:
  "filteredData (line_processData h ''x'' ''y'' None [[(''x'', Num (Fin 0)), (''y'', Num (Fin 5))]]) = []"
  by (simp add: line_processData_def get_field_def num_truthy_def js_sort_def)

subsection \<open>Field classification and validation\<close>

lemma getSmartFieldMapping_empty: "getSmartFieldMapping h chartType [] = Inl TypeError"
  by (simp add: getSmartFieldMapping_def getFieldSuggestions_def)

lemma js_error_unique: "(e::js_error) = TypeError"
  by (cases e) simp

text \<open>
  Claim C7 fails on the code for a dataset without records: \<open>getFieldSuggestions\<close> returns
  an object without properties, and reading \<open>suggestions.all\<close> or \<open>suggestions.categorical[0]\<close>
  throws, whatever the chart type and the mapping are.
\<close>

theorem validate_empty_dataset_throws:
  "validateFieldMapping h chartType mapping [] = Inl TypeError"
  by (cases "run_checks (getFieldSuggestions h []) chartType ([], []) (chart_checks chartType mapping)")
     (simp_all add: validateFieldMapping_def getSmartFieldMapping_empty js_error_unique)

text \<open>
  Claim C8 fails on \<open>getColumnInfo\<close>: a column whose first value is a date string is
  classified categorical there, while \<open>getFieldSuggestions\<close> classifies it as a date (here
  with a host that parses the string).
\<close>

theorem column_info_date_string:
  "map (\<lambda>p. (fst p, type' (snd p))) (getColumnInfo [[(''d'', Str ''2023-01-15'')]]) =
     [(''d'', Categorical)] \<and>
   getFieldSuggestions
      \<lparr>date_parse = (\<lambda>s. Fin 1673740800000), num_string = (\<lambda>n. []), date_string = (\<lambda>t. [])\<rparr>
      [[(''d'', Str ''2023-01-15'')]] =
     Some \<lparr>s_numeric = [], s_categorical = [], s_date = [''d''], s_all = [''d'']\<rparr>"
  by (simp add: getColumnInfo_def getFieldSuggestions_def sampleValue_def column_values_def
      get_field_def suggested_kind_def datePatterns_def is_digit_def digit_of_def Let_def)


subsection \<open>The categorical sum of the pie chart\<close>








lemma pie_percented_values:
  "map value' (pie_percented categoryField valueField data) =
   map value' (pie_grouped categoryField valueField data)"
  by (simp add: pie_percented_def Let_def)












subsection \<open>The fold of the small slices\<close>











subsection \<open>Validation on a dataset with records\<close>

lemma run_checks_Some:
  "run_checks (Some s) chartType st cs =
     Inr (fst st @ concat (map (check_errors s chartType) cs),
          snd st @ concat (map (check_warnings s) cs))"
proof (induction cs arbitrary: st)
  case Nil
  then show ?case by simp
next
  case (Cons c cs)
  show ?case
    by (cases "js_or (fst c) None")
       (simp_all add: checkField_def check_errors_def check_warnings_def Cons.IH Let_def)
qed

lemma validate_nonempty:
  assumes "data \<noteq> []"
  shows "\<exists>r s. validateFieldMapping h chartType mapping data = Inr r \<and>
           getFieldSuggestions h data = Some s \<and>
           isValid r = (errors r = []) \<and>
           errors r = concat (map (check_errors s chartType) (chart_checks chartType mapping)) \<and>
           warnings r = concat (map (check_warnings s) (chart_checks chartType mapping))"
proof -
  from assms obtain s where s: "getFieldSuggestions h data = Some s"
    by (cases data) (simp_all add: getFieldSuggestions_def Let_def)
  then obtain sm where sm: "getSmartFieldMapping h chartType data = Inr sm"
    by (simp add: getSmartFieldMapping_def)
  show ?thesis
    by (simp add: validateFieldMapping_def s sm run_checks_Some)
qed

lemma suggestions_classify:
  assumes "getFieldSuggestions h data = Some s" and "col \<in> set (s_all s)"
  shows "(col \<in> set (s_numeric s)) = is_number (sampleValue data col)"
    and "(col \<in> set (s_date s)) =
           (\<not> is_number (sampleValue data col) \<and>
            (is_Date (sampleValue data col) \<or> isDateString h (sampleValue data col)))"
    and "(col \<in> set (s_categorical s)) =
           (\<not> is_number (sampleValue data col) \<and> \<not> is_Date (sampleValue data col) \<and>
            \<not> isDateString h (sampleValue data col))"
proof -
  from assms(1) obtain d0 ds where d: "data = d0 # ds"
    by (cases data) (simp_all add: getFieldSuggestions_def)
  from assms(1) have s: "s =
     \<lparr>s_numeric = filter (\<lambda>col. suggested_kind h (sampleValue data col) = Numeric) (map fst d0),
      s_categorical = filter (\<lambda>col. suggested_kind h (sampleValue data col) = Categorical) (map fst d0),
      s_date = filter (\<lambda>col. suggested_kind h (sampleValue data col) = Date) (map fst d0),
      s_all = map fst d0\<rparr>"
    by (simp add: getFieldSuggestions_def d Let_def)
  from assms(2) have c: "col \<in> set (map fst d0)" by (simp add: s)
  show "(col \<in> set (s_numeric s)) = is_number (sampleValue data col)"
    using c by (simp add: s suggested_kind_def)
  show "(col \<in> set (s_date s)) =
           (\<not> is_number (sampleValue data col) \<and>
            (is_Date (sampleValue data col) \<or> isDateString h (sampleValue data col)))"
    using c by (simp add: s suggested_kind_def)
  show "(col \<in> set (s_categorical s)) =
           (\<not> is_number (sampleValue data col) \<and> \<not> is_Date (sampleValue data col) \<and>
            \<not> isDateString h (sampleValue data col))"
    using c by (simp add: s suggested_kind_def)
qed


end
